theory Spec2Isabelle
  imports Main
begin

section \<open>Python primitives used by both scripts\<close>

text \<open>
  The exceptions the two scripts can meet. \<open>SystemExit n\<close> is \<open>sys.exit(n)\<close>;
  \<open>OtherException\<close> stands for any exception that is not one of the named ones.
\<close>

datatype py_exn =
    IndexError
  | KeyError
  | NameError
  | AttributeError
  | StopIteration
  | FileNotFoundError
  | ScannerError
  | SystemExit nat
  | OtherException

text \<open>
  \<open>xs[i]\<close> on a Python list: a negative index counts from the end, and an index outside
  the list raises \<open>IndexError\<close>.
\<close>

definition py_index :: "'a list \<Rightarrow> int \<Rightarrow> py_exn + 'a" where
  "py_index xs i =
     (if 0 \<le> i then (if i < int (length xs) then Inr (xs ! nat i) else Inl IndexError)
      else (if - i \<le> int (length xs) then Inr (xs ! nat (int (length xs) + i))
            else Inl IndexError))"

text \<open>
  \<open>str.lower()\<close> and \<open>str.title()\<close> on the ASCII letters (a \<open>char\<close> is a byte; the
  other bytes are left as they are). In \<open>title\<close> a letter that follows a letter is made
  lower case and a letter that follows anything else is made upper case.
\<close>

definition upper_letters :: string where
  "upper_letters = ''ABCDEFGHIJKLMNOPQRSTUVWXYZ''"

definition lower_letters :: string where
  "lower_letters = ''abcdefghijklmnopqrstuvwxyz''"

definition is_upper :: "char \<Rightarrow> bool" where
  "is_upper c = (c \<in> set upper_letters)"

definition is_lower :: "char \<Rightarrow> bool" where
  "is_lower c = (c \<in> set lower_letters)"

definition lower_char :: "char \<Rightarrow> char" where
  "lower_char c = (case map_of (zip upper_letters lower_letters) c of None \<Rightarrow> c | Some d \<Rightarrow> d)"

definition upper_char :: "char \<Rightarrow> char" where
  "upper_char c = (case map_of (zip lower_letters upper_letters) c of None \<Rightarrow> c | Some d \<Rightarrow> d)"

definition lower :: "string \<Rightarrow> string" where
  "lower s = map lower_char s"

fun title_from :: "bool \<Rightarrow> string \<Rightarrow> string" where
  "title_from prev [] = []"
| "title_from prev (c # cs) =
     (if is_upper c \<or> is_lower c
      then (if prev then lower_char c else upper_char c) # title_from True cs
      else c # title_from False cs)"

definition title :: "string \<Rightarrow> string" where
  "title s = title_from False s"

text \<open>\<open>sep.join(xs)\<close>, \<open>os.linesep\<close> on POSIX, and \<open>str(b)\<close> for a bool or \<open>None\<close>.\<close>

fun join :: "string \<Rightarrow> string list \<Rightarrow> string" where
  "join sep [] = []"
| "join sep [x] = x"
| "join sep (x # y # ys) = x @ sep @ join sep (y # ys)"

definition linesep :: string where
  "linesep = [CHR 0x0A]"

definition str_bool :: "bool \<Rightarrow> string" where
  "str_bool b = (if b then ''True'' else ''False'')"

definition str_opt_bool :: "bool option \<Rightarrow> string" where
  "str_opt_bool b = (case b of None \<Rightarrow> ''None'' | Some v \<Rightarrow> str_bool v)"

section \<open>validate\_election\_results.py\<close>

subsection \<open>Format classes\<close>

record list_format =
  EMAIL_HEADER :: int
  FACULTY_HEADER :: int
  INTERNATIONAL_HEADER :: int
  INTERNATIONAL_LABEL :: string

definition StudentListFormat :: list_format where
  "StudentListFormat =
     \<lparr>EMAIL_HEADER = 5, FACULTY_HEADER = 0, INTERNATIONAL_HEADER = 6,
      INTERNATIONAL_LABEL = ''Visa''\<rparr>"

definition ResultsListFormat :: list_format where
  "ResultsListFormat =
     \<lparr>EMAIL_HEADER = 1, FACULTY_HEADER = - 1, INTERNATIONAL_HEADER = 2,
      INTERNATIONAL_LABEL = ''Yes''\<rparr>"

subsection \<open>Console output\<close>

text \<open>
  What the validation stage prints, one constructor per \<open>print\<close> call that the properties
  below read. The printed text of the two error messages carries the file name and the
  reader's line number; the model carries the row the message is about.
\<close>

datatype console =
    CannotParseRow "string list"
  | ReadLines nat
  | BadFormatting "string list"
  | UnexpectedError "string list"
  | NopeingOut
  | VoidingStudent string string
  | Summary nat nat nat

subsection \<open>read\_student\_list\<close>

type_synonym students = "string \<rightharpoonup> (string \<times> bool)"

text \<open>The \<open>try\<close> body of the roster loop: the three fields of one record.\<close>

definition student_fields :: "string list \<Rightarrow> py_exn + (string \<times> string \<times> bool)" where
  "student_fields row =
     (case py_index row (EMAIL_HEADER StudentListFormat) of
        Inl e \<Rightarrow> Inl e
      | Inr email_cell \<Rightarrow>
          (case py_index row (FACULTY_HEADER StudentListFormat) of
             Inl e \<Rightarrow> Inl e
           | Inr faculty_cell \<Rightarrow>
               (case py_index row (INTERNATIONAL_HEADER StudentListFormat) of
                  Inl e \<Rightarrow> Inl e
                | Inr international_cell \<Rightarrow>
                    Inr (lower email_cell, title faculty_cell,
                         international_cell = INTERNATIONAL_LABEL StudentListFormat))))"

text \<open>
  The \<open>for row in reader\<close> loop: \<open>except IndexError\<close> prints and goes on, \<open>else\<close> stores
  the entry (a later record with the same email replaces an earlier one). No other
  exception can leave the \<open>try\<close> body, since a row is a list of strings.
\<close>

fun read_student_rows ::
  "string list list \<Rightarrow> students \<times> console list \<Rightarrow> students \<times> console list" where
  "read_student_rows [] acc = acc"
| "read_student_rows (row # rows) (studs, out) =
     (case student_fields row of
        Inl e \<Rightarrow> read_student_rows rows (studs, out @ [CannotParseRow row])
      | Inr (email, faculty, international) \<Rightarrow>
          read_student_rows rows (studs(email \<mapsto> (faculty, international)), out))"

text \<open>
  \<open>read_student_list(filename, comments=None, headers=None)\<close> on the parsed lines of the
  file. \<open>next(reader)\<close> on an exhausted reader raises \<open>StopIteration\<close>, which nothing
  catches; \<open>range(n)\<close> is empty for a negative \<open>n\<close>.
\<close>

fun skip_rows :: "nat \<Rightarrow> 'a list \<Rightarrow> py_exn + 'a list" where
  "skip_rows 0 xs = Inr xs"
| "skip_rows (Suc n) [] = Inl StopIteration"
| "skip_rows (Suc n) (x # xs) = skip_rows n xs"

definition read_student_list ::
  "string list list \<Rightarrow> int option \<Rightarrow> bool \<Rightarrow> py_exn + (students \<times> console list)" where
  "read_student_list lines comments headers =
     (case skip_rows (case comments of None \<Rightarrow> 0 | Some n \<Rightarrow> nat n) lines of
        Inl e \<Rightarrow> Inl e
      | Inr after_comments \<Rightarrow>
          (case skip_rows (if headers then 1 else 0) after_comments of
             Inl e \<Rightarrow> Inl e
           | Inr rows \<Rightarrow>
               (case read_student_rows rows (Map.empty, []) of
                  (studs, out) \<Rightarrow> Inr (studs, out @ [ReadLines (length lines)]))))"

subsection \<open>Output files and the per-row actions\<close>

text \<open>
  A file opened for writing is the list of the strings written to it, in order; its
  content is their concatenation.
\<close>

definition results_datetime_str :: "string \<Rightarrow> string" where
  "results_datetime_str now = ''Results From '' @ now"

definition write_results_header :: "string \<Rightarrow> string \<Rightarrow> string option \<Rightarrow> string list" where
  "write_results_header comment_str now header_str =
     [''# '' @ comment_str @ linesep, ''# '' @ results_datetime_str now @ linesep]
     @ (case header_str of None \<Rightarrow> [] | Some h \<Rightarrow> [h @ linesep])"

record vstate =
  void_f :: "string list"
  validate_f :: "string list"
  entries :: nat
  validated :: nat
  voided :: nat
  out :: "console list"

text \<open>
  \<open>void_student\<close> prints \<open>row[ResultsListFormat.EMAIL_HEADER]\<close> before it writes, so it
  raises \<open>IndexError\<close> on a row without that column.
\<close>

definition void_student ::
  "list_format \<Rightarrow> string list \<Rightarrow> string \<Rightarrow> vstate \<Rightarrow> py_exn + vstate" where
  "void_student fmt row reason st =
     (case py_index row (EMAIL_HEADER fmt) of
        Inl e \<Rightarrow> Inl e
      | Inr cell \<Rightarrow>
          Inr (st\<lparr>out := out st @ [VoidingStudent reason cell],
                  void_f := void_f st @ [join '','' (row @ [reason]) @ linesep]\<rparr>))"

definition validate_student :: "string list \<Rightarrow> vstate \<Rightarrow> vstate" where
  "validate_student row st = st\<lparr>validate_f := validate_f st @ [join '','' row @ linesep]\<rparr>"

definition count_voided :: "py_exn + vstate \<Rightarrow> py_exn + vstate" where
  "count_voided r = (case r of Inl e \<Rightarrow> Inl e | Inr st \<Rightarrow> Inr (st\<lparr>voided := voided st + 1\<rparr>))"

text \<open>The \<open>try\<close> body of the ballot loop: email, faculty and international of one row.\<close>

type_synonym extracted = "string \<times> string option \<times> bool option"

definition extract_row :: "list_format \<Rightarrow> string list \<Rightarrow> py_exn + extracted" where
  "extract_row fmt row =
     (case py_index row (EMAIL_HEADER fmt) of
        Inl e \<Rightarrow> Inl e
      | Inr email_cell \<Rightarrow>
          (case (if FACULTY_HEADER fmt > 0
                 then map_sum id (\<lambda>c. Some (title c)) (py_index row (FACULTY_HEADER fmt))
                 else Inr None) of
             Inl e \<Rightarrow> Inl e
           | Inr faculty \<Rightarrow>
               (case (if INTERNATIONAL_HEADER fmt > 0
                      then map_sum id (\<lambda>c. Some (c = INTERNATIONAL_LABEL fmt))
                             (py_index row (INTERNATIONAL_HEADER fmt))
                      else Inr None) of
                  Inl e \<Rightarrow> Inl e
                | Inr international \<Rightarrow> Inr (lower email_cell, faculty, international))))"

text \<open>
  The comparison against the student list (the \<open>if\<close>/\<open>elif\<close> chain after the \<open>try\<close>).
  In the branch \<open>elif faculty is not None\<close> the inner \<open>if\<close> has no \<open>else\<close>: a row whose
  faculty agrees is neither voided nor validated, and its status is not looked at.
\<close>

definition compare_student ::
  "list_format \<Rightarrow> students \<Rightarrow> string list \<Rightarrow> extracted \<Rightarrow> vstate \<Rightarrow> py_exn + vstate" where
  "compare_student fmt studs row ex st =
     (case ex of (email, faculty, international) \<Rightarrow>
        (case studs email of
           None \<Rightarrow> count_voided (void_student fmt row ''Not in Student List'' st)
         | Some (s_faculty, s_international) \<Rightarrow>
             (case faculty of
                Some f \<Rightarrow>
                  (if lower s_faculty \<noteq> lower f
                   then count_voided (void_student fmt row
                          (''Incorrect Faculty: Expected ['' @ f @ ''] Got ['' @ s_faculty @ ''] '') st)
                   else Inr st)
              | None \<Rightarrow>
                  (if Some s_international \<noteq> international
                   then count_voided (void_student fmt row
                          (''Incorrect International Status: Expected ['' @ str_opt_bool international
                             @ ''] Got ['' @ str_bool s_international @ '']'') st)
                   else Inr ((validate_student row st)\<lparr>validated := validated st + 1\<rparr>)))))"

text \<open>
  The body of the \<open>for row in reader\<close> loop, for one row. The \<open>try\<close> body is the
  parameter \<open>try_body\<close>, so that both handlers are branches of the model:
  \<open>except IndexError\<close> prints and goes on to the next row (\<open>continue\<close>),
  \<open>except Exception\<close> prints twice and leaves the loop (\<open>break\<close>). An exception raised
  after the \<open>try\<close> statement is not caught.
\<close>

datatype 'a loop_step = Continue 'a | Break 'a

definition validate_row ::
  "(string list \<Rightarrow> py_exn + extracted) \<Rightarrow> list_format \<Rightarrow> students \<Rightarrow> string list
     \<Rightarrow> vstate \<Rightarrow> py_exn + vstate loop_step" where
  "validate_row try_body fmt studs row st =
     (case try_body row of
        Inl e \<Rightarrow>
          (if e = IndexError
           then Inr (Continue (st\<lparr>entries := entries st + 1,
                                   out := out st @ [BadFormatting row]\<rparr>))
           else Inr (Break (st\<lparr>entries := entries st + 1,
                                out := out st @ [UnexpectedError row, NopeingOut]\<rparr>)))
      | Inr ex \<Rightarrow>
          map_sum id Continue (compare_student fmt studs row ex (st\<lparr>entries := entries st + 1\<rparr>)))"

fun validate_rows ::
  "(string list \<Rightarrow> py_exn + extracted) \<Rightarrow> list_format \<Rightarrow> students \<Rightarrow> string list list
     \<Rightarrow> vstate \<Rightarrow> py_exn + vstate" where
  "validate_rows try_body fmt studs [] st = Inr st"
| "validate_rows try_body fmt studs (row # rows) st =
     (case validate_row try_body fmt studs row st of
        Inl e \<Rightarrow> Inl e
      | Inr (Break st') \<Rightarrow> Inr st'
      | Inr (Continue st') \<Rightarrow> validate_rows try_body fmt studs rows st')"

text \<open>
  \<open>validate_results_list\<close> on the parsed lines of the two files and the text of the
  current time. A run either returns, after the summary is printed, or ends in an uncaught
  exception; the script exits with status 0 in the first case and 1 in the second.
\<close>

datatype run_end = Finished vstate | Traceback py_exn


definition run_validation ::
  "(string list \<Rightarrow> py_exn + extracted) \<Rightarrow> list_format \<Rightarrow> string list list \<Rightarrow> string list list
     \<Rightarrow> string \<Rightarrow> run_end" where
  "run_validation try_body fmt student_lines result_lines now =
     (case read_student_list student_lines None False of
        Inl e \<Rightarrow> Traceback e
      | Inr (studs, printed) \<Rightarrow>
          (case result_lines of
             [] \<Rightarrow> Traceback StopIteration
           | results_header # rows \<Rightarrow>
               (case validate_rows try_body fmt studs rows
                       \<lparr>void_f = write_results_header ''VOIDED STUDENTS'' now
                                   (Some (join '','' (results_header @ [''Reason'']))),
                        validate_f = write_results_header ''VALIDATED STUDENTS'' now
                                   (Some (join '','' results_header)),
                        entries = 0, validated = 0, voided = 0, out = printed\<rparr> of
                  Inl e \<Rightarrow> Traceback e
                | Inr st \<Rightarrow>
                    Finished (st\<lparr>out := out st
                                @ [Summary (entries st) (validated st) (voided st)]\<rparr>))))"

definition validate_results_list ::
  "string list list \<Rightarrow> string list list \<Rightarrow> string \<Rightarrow> run_end" where
  "validate_results_list student_lines result_lines now =
     run_validation (extract_row ResultsListFormat) ResultsListFormat
       student_lines result_lines now"

section \<open>compile\_validated\_results.py\<close>


subsection \<open>Configuration\<close>

text \<open>
  The configuration is a dict. \<open>read_config\<close> and the main block handle it key by key, so
  there it is a map from keys to values; \<open>DEFAULT_CONFIG\<close> is the dict literal, in the order
  of its items.
\<close>

datatype cfg_val = IntVal int | ListVal "string list"

type_synonym cfg_dict = "string \<rightharpoonup> cfg_val"

definition DEFAULT_CONFIG :: "(string \<times> cfg_val) list" where
  "DEFAULT_CONFIG =
     [(''faculty_column'', IntVal 3),
      (''user_column'', IntVal 2),
      (''frc_votes'', IntVal 2),
      (''exec_votes'', IntVal 1),
      (''international_offset'', IntVal 13),
      (''frc_offset'', IntVal 4),
      (''frc_elections'',
         ListVal [''Social Sciences'', ''Humanities'', ''Health Sciences'', ''Business'']),
      (''exec_offset'', IntVal 15),
      (''exec_elections'',
         ListVal [''VP Administration'', ''VP Internal'', ''VP External'', ''VP Services'',
                  ''President''])]"

text \<open>
  What \<open>open(config_file)\<close> followed by \<open>yaml.load\<close> gives for the path on the command
  line: the file is missing, the scanner rejects it, or it holds a mapping.
\<close>

datatype config_file = Missing | Unscannable | Document cfg_dict

text \<open>The loop \<open>for key, val in DEFAULT_CONFIG.items(): if key not in config: ...\<close>.\<close>

fun populate_defaults :: "(string \<times> cfg_val) list \<Rightarrow> cfg_dict \<Rightarrow> cfg_dict" where
  "populate_defaults [] config = config"
| "populate_defaults ((key, val) # items) config =
     populate_defaults items (if config key = None then config(key \<mapsto> val) else config)"

definition read_config :: "bool \<Rightarrow> config_file option \<Rightarrow> py_exn + cfg_dict" where
  "read_config yaml_installed config_file =
     (case config_file of
        None \<Rightarrow> Inr (map_of DEFAULT_CONFIG)
      | Some f \<Rightarrow>
          (if \<not> yaml_installed then Inl (SystemExit 1)
           else (case f of
                   Missing \<Rightarrow> Inl FileNotFoundError
                 | Unscannable \<Rightarrow> Inl ScannerError
                 | Document config \<Rightarrow> Inr (populate_defaults DEFAULT_CONFIG config))))"

text \<open>
  The main block up to the call \<open>compile_validated_results(opts.file, config, opts.directory)\<close>:
  the result is the value of \<open>config\<close> at the call. \<open>config\<close> is assigned only inside
  \<open>if opts.config is not None\<close>, so without the option the call raises \<open>NameError\<close>. The
  second \<open>except\<close> clause evaluates \<open>yaml.scanner.ScannerError\<close>, which raises
  \<open>AttributeError\<close> when \<open>yaml\<close> is \<open>None\<close>.
\<close>

definition main_config :: "bool \<Rightarrow> config_file option \<Rightarrow> py_exn + cfg_dict" where
  "main_config yaml_installed opts_config =
     (case opts_config of
        None \<Rightarrow> Inl NameError
      | Some f \<Rightarrow>
          (case read_config yaml_installed (Some f) of
             Inr config \<Rightarrow> Inr config
           | Inl e \<Rightarrow>
               (if e = FileNotFoundError then Inl (SystemExit 1)
                else if \<not> yaml_installed then Inl AttributeError
                else if e = ScannerError then Inl (SystemExit 1)
                else Inl e)))"

text \<open>
  \<open>build_election_columns\<close> and \<open>compile_validated_results\<close> read the nine keys as
  integers and lists of names; the record holds their values.
\<close>

record config =
  faculty_column :: int
  user_column :: int
  frc_votes :: int
  exec_votes :: int
  international_offset :: int
  frc_offset :: int
  frc_elections :: "string list"
  exec_offset :: int
  exec_elections :: "string list"

subsection \<open>build\_election\_columns\<close>

type_synonym columns = "string \<rightharpoonup> int"

text \<open>
  One of the two loops \<open>for name in ...: election_columns[name] = current_col;
  current_col += step\<close>. An assignment to a key that is already there replaces its value.
\<close>

fun assign_columns :: "string list \<Rightarrow> int \<Rightarrow> int \<Rightarrow> columns \<Rightarrow> columns" where
  "assign_columns [] current_col step election_columns = election_columns"
| "assign_columns (name # names) current_col step election_columns =
     assign_columns names (current_col + step) step (election_columns(name \<mapsto> current_col))"

definition build_election_columns :: "config \<Rightarrow> columns" where
  "build_election_columns config =
     assign_columns (exec_elections config) (exec_offset config - 1) 1
       ((assign_columns (frc_elections config) (frc_offset config - 1) (frc_votes config)
           (Map.empty(''User'' \<mapsto> user_column config - 1,
                      ''Faculty'' \<mapsto> faculty_column config - 1)))
        (''International'' \<mapsto> international_offset config - 1))"

subsection \<open>Election files\<close>

text \<open>
  Every \<open>open\<close> call makes a new file object; the objects of a run are a list and a file
  object is named by its position there. \<open>the_files\<close> is the dict from election names to
  file objects, in insertion order.
\<close>

record handle =
  path :: string
  written :: "string list"
  closed :: bool







definition close_file :: "nat \<Rightarrow> handle list \<Rightarrow> handle list" where
  "close_file i handles = handles[i := (handles ! i)\<lparr>closed := True\<rparr>]"


subsection \<open>Reading the validated file\<close>



subsection \<open>Vote extraction\<close>

text \<open>
  What processing the rows does, in order: \<open>Write f user vote\<close> is the call
  \<open>election_files[...].write(",".join([user, vote]) + os.linesep)\<close> on file object \<open>f\<close>,
  \<open>EmptyVote\<close> is one of the three warnings about an empty vote. A trace ends with the
  exception that stopped it, if any. The \<open>debug\<close> prints are left out.
\<close>

datatype vote_pass = FRC_pass | International_pass | Exec_pass

datatype event = Write nat string string | EmptyVote vote_pass string string

type_synonym trace = "event list \<times> py_exn option"

definition then_trace :: "trace \<Rightarrow> trace \<Rightarrow> trace" where
  "then_trace a b = (case snd a of Some e \<Rightarrow> a | None \<Rightarrow> (fst a @ fst b, snd b))"











text \<open>
  \<open>compile_validated_results\<close> on the text of the validated file; \<open>csv_reader\<close> is
  \<open>csv.reader\<close>, from the text after the skipped lines to its rows. There is no
  \<open>try\<close> in the function: an exception leaves it at once, before
  \<open>close_election_files\<close>. The result holds the exception, if any, the file objects as
  they are then, the dict of the election files and the trace.
\<close>

record compiled =
  raised :: "py_exn option"
  handles :: "handle list"
  election_files :: "(string \<times> nat) list"
  events :: "event list"


section \<open>Observations used by the properties\<close>

text \<open>
  The number of ballot rows skipped with the bad-formatting warning, read off the console
  output.
\<close>

fun is_bad_formatting :: "console \<Rightarrow> bool" where
  "is_bad_formatting (BadFormatting r) = True"
| "is_bad_formatting m = False"

definition skipped :: "console list \<Rightarrow> nat" where
  "skipped printed = length (filter is_bad_formatting printed)"

text \<open>
  The observations on the compilation stage: a \<open>write\<close> call whose vote is the empty
  string; what happened to the vote slot \<open>i\<close> of an election in a trace (a warning for an
  empty value, a \<open>write\<close> to the election's file for any other); a trace without a
  \<open>write\<close> of an empty vote; and the election files a run opens.
\<close>

fun is_empty_write :: "event \<Rightarrow> bool" where
  "is_empty_write (Write f user vote) = (vote = [])"
| "is_empty_write (EmptyVote p election user) = False"


definition no_empty_write :: "trace \<Rightarrow> bool" where
  "no_empty_write t = (\<forall>ev \<in> set (fst t). \<not> is_empty_write ev)"


text \<open>A string without a line break (\<open>\n\<close> or \<open>\r\<close>).\<close>

definition no_linebreak :: "string \<Rightarrow> bool" where
  "no_linebreak s = (CHR 0x0A \<notin> set s \<and> CHR 0x0D \<notin> set s)"

section \<open>Properties of the validation stage\<close>

lemmas py_str = lower_def lower_char_def upper_char_def is_upper_def is_lower_def title_def upper_letters_def lower_letters_def

lemma py_index_exn: "py_index xs i = Inl e \<Longrightarrow> e = IndexError"
  by (auto simp: py_index_def split: if_splits)

lemma extract_row_exn: "extract_row fmt row = Inl e \<Longrightarrow> e = IndexError"
  by (auto simp: extract_row_def map_sum_def split: sum.splits if_splits dest: py_index_exn)

lemma extract_row_email:
  "extract_row fmt row = Inr (email, faculty, international) \<Longrightarrow>
   \<exists>cell. py_index row (EMAIL_HEADER fmt) = Inr cell \<and> email = lower cell"
  by (auto simp: extract_row_def split: sum.splits)

lemma extract_row_faculty:
  "extract_row fmt row = Inr (email, faculty, international) \<Longrightarrow>
   (faculty = None) = (FACULTY_HEADER fmt \<le> 0)"
  by (auto simp: extract_row_def map_sum_def split: sum.splits if_splits)

lemma void_student_ok:
  "py_index row (EMAIL_HEADER fmt) = Inr cell \<Longrightarrow>
   count_voided (void_student fmt row reason st) =
     Inr (st\<lparr>out := out st @ [VoidingStudent reason cell],
             void_f := void_f st @ [join '','' (row @ [reason]) @ linesep],
             voided := voided st + 1\<rparr>)"
  by (simp add: void_student_def count_voided_def)

text \<open>
  Claim C8. For every roster and every ballot row whose lowercased identity is not a
  key of the roster, the row is voided with the reason \<open>Not in Student List\<close>, whatever its
  faculty and international fields are: the loop body counts the row, prints the voiding
  message, appends the row and the reason to the voided file, adds one to \<open>voided\<close> and goes
  on to the next row. The identity of a row is the email that the \<open>try\<close> body extracts
  from it; this holds for every format, not only for \<open>ResultsListFormat\<close>.
\<close>

theorem not_on_roster_voided:
  assumes "extract_row fmt row = Inr (email, faculty, international)"
    and "studs email = None"
  shows "validate_row (extract_row fmt) fmt studs row st =
     Inr (Continue (st\<lparr>entries := entries st + 1,
            out := out st @ [VoidingStudent ''Not in Student List''
                               (projr (py_index row (EMAIL_HEADER fmt)))],
            void_f := void_f st @ [join '','' (row @ [''Not in Student List'']) @ linesep],
            voided := voided st + 1\<rparr>))"
proof -
  from assms(1) obtain cell where c: "py_index row (EMAIL_HEADER fmt) = Inr cell"
    using extract_row_email by blast
  show ?thesis
    using assms c
    by (simp add: validate_row_def compare_student_def void_student_ok [OF c])
qed


lemma shipped_faculty_absent:
  "extract_row ResultsListFormat row = Inr (email, faculty, international) \<Longrightarrow> faculty = None"
  using extract_row_faculty [of ResultsListFormat row email faculty international]
  by (simp add: ResultsListFormat_def)

lemma skipped_append [simp]: "skipped (xs @ ys) = skipped xs + skipped ys"
  by (simp add: skipped_def)

lemma skipped_simps [simp]:
  "skipped [] = 0"
  "skipped (BadFormatting r # xs) = Suc (skipped xs)"
  "skipped (VoidingStudent a b # xs) = skipped xs"
  "skipped (CannotParseRow r # xs) = skipped xs"
  "skipped (ReadLines n # xs) = skipped xs"
  "skipped (Summary x y z # xs) = skipped xs"
  by (simp_all add: skipped_def)

lemma shipped_row_routed:
  "\<exists>st'. validate_row (extract_row ResultsListFormat) ResultsListFormat studs row st
            = Inr (Continue st')
     \<and> entries st' = entries st + 1
     \<and> ((validate_f st' = validate_f st @ [join '','' row @ linesep]
          \<and> void_f st' = void_f st \<and> skipped (out st') = skipped (out st)
          \<and> validated st' = validated st + 1 \<and> voided st' = voided st)
        \<or> ((\<exists>reason. void_f st' = void_f st @ [join '','' (row @ [reason]) @ linesep])
          \<and> validate_f st' = validate_f st \<and> skipped (out st') = skipped (out st)
          \<and> validated st' = validated st \<and> voided st' = voided st + 1)
        \<or> (out st' = out st @ [BadFormatting row]
          \<and> validate_f st' = validate_f st \<and> void_f st' = void_f st
          \<and> skipped (out st') = skipped (out st) + 1
          \<and> validated st' = validated st \<and> voided st' = voided st))"
proof (cases "extract_row ResultsListFormat row")
  case (Inl e)
  then have "e = IndexError" by (rule extract_row_exn)
  with Inl show ?thesis by (simp add: validate_row_def)
next
  case (Inr ex)
  obtain email faculty international where ex: "ex = (email, faculty, international)"
    by (cases ex) auto
  with Inr have none: "faculty = None" using shipped_faculty_absent by blast
  from Inr ex obtain cell where c: "py_index row (EMAIL_HEADER ResultsListFormat) = Inr cell"
    using extract_row_email by blast
  show ?thesis
    using Inr ex none
    by (auto simp: validate_row_def compare_student_def void_student_ok [OF c]
          validate_student_def split: option.splits)
qed

lemma shipped_rows_counts:
  "\<exists>st'. validate_rows (extract_row ResultsListFormat) ResultsListFormat studs rows st = Inr st'
     \<and> entries st' = entries st + length rows
     \<and> validated st' + voided st' + skipped (out st')
         = validated st + voided st + skipped (out st) + length rows
     \<and> length (validate_f st') + validated st = length (validate_f st) + validated st'
     \<and> length (void_f st') + voided st = length (void_f st) + voided st'"
proof (induction rows arbitrary: st)
  case Nil
  show ?case by simp
next
  case (Cons row rows)
  obtain st1 where s1:
    "validate_row (extract_row ResultsListFormat) ResultsListFormat studs row st = Inr (Continue st1)"
    "entries st1 = entries st + 1"
    "validated st1 + voided st1 + skipped (out st1) = validated st + voided st + skipped (out st) + 1"
    "length (validate_f st1) + validated st = length (validate_f st) + validated st1"
    "length (void_f st1) + voided st = length (void_f st) + voided st1"
    using shipped_row_routed [of studs row st] by auto
  obtain st' where s2:
    "validate_rows (extract_row ResultsListFormat) ResultsListFormat studs rows st1 = Inr st'"
    "entries st' = entries st1 + length rows"
    "validated st' + voided st' + skipped (out st')
         = validated st1 + voided st1 + skipped (out st1) + length rows"
    "length (validate_f st') + validated st1 = length (validate_f st1) + validated st'"
    "length (void_f st') + voided st1 = length (void_f st1) + voided st'"
    using Cons.IH [of st1] by auto
  show ?case
    using s1 s2 by simp
qed

lemma read_student_rows_skipped:
  "skipped (snd (read_student_rows rows (m, lg))) = skipped lg"
  by (induction rows arbitrary: m lg) (auto split: sum.splits)

lemma read_student_list_plain:
  "read_student_list lines None False =
     Inr (fst (read_student_rows lines (Map.empty, [])),
          snd (read_student_rows lines (Map.empty, [])) @ [ReadLines (length lines)])"
  by (simp add: read_student_list_def split: prod.splits)

text \<open>
  Claim C1. With the \<open>ResultsListFormat\<close> of the source, the loop body sends every row
  to exactly one of three places and goes on: one line more in the validated file (and
  \<open>validated\<close> one more), or one line more in the voided file (and \<open>voided\<close> one more), or one
  bad-formatting warning more; in each case the other two are as they were and \<open>entries\<close>
  is one more. A whole run over a results file with a header finishes with
  \<open>entries\<close> the number of rows, \<open>validated + voided + skipped = entries\<close>, as many data
  lines in each output file as its counter says, and so \<open>validated + voided = entries\<close> when
  no row was skipped.
\<close>

theorem every_row_routed_once:
  "(\<exists>st'. validate_row (extract_row ResultsListFormat) ResultsListFormat studs row st
            = Inr (Continue st')
     \<and> entries st' = entries st + 1
     \<and> ((validate_f st' = validate_f st @ [join '','' row @ linesep]
          \<and> void_f st' = void_f st \<and> skipped (out st') = skipped (out st)
          \<and> validated st' = validated st + 1 \<and> voided st' = voided st)
        \<or> ((\<exists>reason. void_f st' = void_f st @ [join '','' (row @ [reason]) @ linesep])
          \<and> validate_f st' = validate_f st \<and> skipped (out st') = skipped (out st)
          \<and> validated st' = validated st \<and> voided st' = voided st + 1)
        \<or> (out st' = out st @ [BadFormatting row]
          \<and> validate_f st' = validate_f st \<and> void_f st' = void_f st
          \<and> skipped (out st') = skipped (out st) + 1
          \<and> validated st' = validated st \<and> voided st' = voided st)))
   \<and> (\<exists>fin. validate_results_list student_lines (results_header # rows) now = Finished fin
     \<and> entries fin = length rows
     \<and> validated fin + voided fin + skipped (out fin) = entries fin
     \<and> length (validate_f fin) = 3 + validated fin
     \<and> length (void_f fin) = 3 + voided fin
     \<and> (skipped (out fin) = 0 \<longrightarrow> validated fin + voided fin = entries fin))"
proof (rule conjI)
  show "\<exists>st'. validate_row (extract_row ResultsListFormat) ResultsListFormat studs row st
            = Inr (Continue st')
     \<and> entries st' = entries st + 1
     \<and> ((validate_f st' = validate_f st @ [join '','' row @ linesep]
          \<and> void_f st' = void_f st \<and> skipped (out st') = skipped (out st)
          \<and> validated st' = validated st + 1 \<and> voided st' = voided st)
        \<or> ((\<exists>reason. void_f st' = void_f st @ [join '','' (row @ [reason]) @ linesep])
          \<and> validate_f st' = validate_f st \<and> skipped (out st') = skipped (out st)
          \<and> validated st' = validated st \<and> voided st' = voided st + 1)
        \<or> (out st' = out st @ [BadFormatting row]
          \<and> validate_f st' = validate_f st \<and> void_f st' = void_f st
          \<and> skipped (out st') = skipped (out st) + 1
          \<and> validated st' = validated st \<and> voided st' = voided st))"
    by (rule shipped_row_routed)
next
  define studs where "studs = fst (read_student_rows student_lines (Map.empty, []))"
  define printed where
    "printed = snd (read_student_rows student_lines (Map.empty, [])) @ [ReadLines (length student_lines)]"
  define st0 where "st0 =
     \<lparr>void_f = write_results_header ''VOIDED STUDENTS'' now
                 (Some (join '','' (results_header @ [''Reason'']))),
      validate_f = write_results_header ''VALIDATED STUDENTS'' now
                 (Some (join '','' results_header)),
      entries = 0, validated = 0, voided = 0, out = printed\<rparr>"
  have p0: "skipped printed = 0"
    by (simp add: printed_def read_student_rows_skipped)
  obtain st' where s:
    "validate_rows (extract_row ResultsListFormat) ResultsListFormat studs rows st0 = Inr st'"
    "entries st' = entries st0 + length rows"
    "validated st' + voided st' + skipped (out st')
         = validated st0 + voided st0 + skipped (out st0) + length rows"
    "length (validate_f st') + validated st0 = length (validate_f st0) + validated st'"
    "length (void_f st') + voided st0 = length (void_f st0) + voided st'"
    using shipped_rows_counts [of studs rows st0] by auto
  have run: "validate_results_list student_lines (results_header # rows) now =
       Finished (st'\<lparr>out := out st' @ [Summary (entries st') (validated st') (voided st')]\<rparr>)"
    using s(1)
    by (simp add: validate_results_list_def run_validation_def read_student_list_plain
          studs_def printed_def st0_def)
  show "\<exists>fin. validate_results_list student_lines (results_header # rows) now = Finished fin
     \<and> entries fin = length rows
     \<and> validated fin + voided fin + skipped (out fin) = entries fin
     \<and> length (validate_f fin) = 3 + validated fin
     \<and> length (void_f fin) = 3 + voided fin
     \<and> (skipped (out fin) = 0 \<longrightarrow> validated fin + voided fin = entries fin)"
    using s(2-5) p0 unfolding run
    by (simp add: st0_def write_results_header_def)
qed

lemmas run_defs = validate_results_list_def run_validation_def read_student_list_def
  validate_row_def compare_student_def void_student_def count_voided_def validate_student_def
  extract_row_def py_index_def ResultsListFormat_def StudentListFormat_def student_fields_def
  write_results_header_def results_datetime_str_def linesep_def str_bool_def str_opt_bool_def

text \<open>
  A run with one accepted and one voided ballot: nothing is skipped and the counters add
  up.
\<close>

theorem every_row_routed_once_witness:
  "(case validate_results_list
           [[''Science'', ''x'', ''x'', ''x'', ''x'', ''A@x.edu'', ''Visa'']]
           [[''Time'', ''Email'', ''Intl''], [''1'', ''a@X.edu'', ''Yes''], [''2'', ''b@x.edu'', ''No'']]
           ''2020-01-01 10:00:00'' of
      Finished fin \<Rightarrow> skipped (out fin) = 0 \<and> validated fin = 1 \<and> voided fin = 1 \<and> entries fin = 2
    | Traceback e \<Rightarrow> False)"
  using every_row_routed_once [of Map.empty "[]" "\<lparr>void_f = [], validate_f = [], entries = 0, validated = 0, voided = 0, out = []\<rparr>"
      "[[''Science'', ''x'', ''x'', ''x'', ''x'', ''A@x.edu'', ''Visa'']]"
      "[''Time'', ''Email'', ''Intl'']" "[[''1'', ''a@X.edu'', ''Yes''], [''2'', ''b@x.edu'', ''No'']]"
      "''2020-01-01 10:00:00''"]
  by (simp add: run_defs py_str)

text \<open>
  A ballot of an address that the roster does not hold.
\<close>

theorem not_on_roster_voided_witness:
  "validate_row (extract_row ResultsListFormat) ResultsListFormat
       [''a@x.edu'' \<mapsto> (''Science'', True)] [''1'', ''Ghost@x.edu'', ''Yes'']
       \<lparr>void_f = [], validate_f = [], entries = 0, validated = 0, voided = 0, out = []\<rparr> =
     Inr (Continue \<lparr>void_f = [''1,Ghost@x.edu,Yes,Not in Student List'' @ linesep],
            validate_f = [], entries = 1, validated = 0, voided = 1,
            out = [VoidingStudent ''Not in Student List'' ''Ghost@x.edu'']\<rparr>)"
proof -
  have e: "extract_row ResultsListFormat [''1'', ''Ghost@x.edu'', ''Yes'']
             = Inr (''ghost@x.edu'', None, Some True)"
    by (simp add: extract_row_def py_index_def ResultsListFormat_def py_str)
  have n: "[''a@x.edu'' \<mapsto> (''Science'', True)] ''ghost@x.edu'' = None"
    by simp
  show ?thesis
    using not_on_roster_voided [where studs = "[''a@x.edu'' \<mapsto> (''Science'', True)]"
        and st = "\<lparr>void_f = [], validate_f = [], entries = 0, validated = 0, voided = 0, out = []\<rparr>",
        OF e n]
    by (simp add: py_index_def ResultsListFormat_def)
qed






lemma student_fields_short:
  "int (length row) \<le> max (EMAIL_HEADER StudentListFormat)
                        (max (FACULTY_HEADER StudentListFormat) (INTERNATIONAL_HEADER StudentListFormat))
   \<Longrightarrow> student_fields row = Inl IndexError"
  by (auto simp: student_fields_def StudentListFormat_def py_index_def split: sum.splits)

lemma read_student_rows_append:
  "read_student_rows (xs @ ys) acc = read_student_rows ys (read_student_rows xs acc)"
proof (induction xs arbitrary: acc)
  case Nil
  show ?case by simp
next
  case (Cons x xs)
  obtain m lg where "acc = (m, lg)" by (cases acc)
  with Cons show ?case by (simp split: sum.splits)
qed

lemma read_student_rows_students:
  "fst (read_student_rows rows (m, lg)) = fst (read_student_rows rows (m, lg'))"
proof (induction rows arbitrary: m lg lg')
  case Nil
  show ?case by simp
next
  case (Cons r rows)
  show ?case
  proof (cases "student_fields r")
    case (Inl e)
    then show ?thesis using Cons [of m "lg @ [CannotParseRow r]" "lg' @ [CannotParseRow r]"] by simp
  next
    case (Inr t)
    then show ?thesis using Cons by (simp split: prod.splits)
  qed
qed

lemma read_student_rows_keeps_output:
  "set lg \<subseteq> set (snd (read_student_rows rows (m, lg)))"
proof (induction rows arbitrary: m lg)
  case Nil
  show ?case by simp
next
  case (Cons r rows)
  show ?case
  proof (cases "student_fields r")
    case (Inl e)
    then show ?thesis using Cons [of "lg @ [CannotParseRow r]" m] by auto
  next
    case (Inr t)
    then show ?thesis using Cons by (auto split: prod.splits)
  qed
qed

text \<open>
  Claim C9. A roster record too short for the email, faculty and international
  positions prints the parse error, the loop goes on with the records after it, and the
  resulting mapping is the one of the roster without that record. \<open>read_student_list\<close>, as
  \<open>validate_results_list\<close> calls it, returns this mapping: the load does not abort.
\<close>

theorem short_roster_record_skipped:
  assumes "int (length row) \<le> max (EMAIL_HEADER StudentListFormat)
                        (max (FACULTY_HEADER StudentListFormat) (INTERNATIONAL_HEADER StudentListFormat))"
  shows "read_student_rows (before @ row # after) acc =
           read_student_rows after
             (fst (read_student_rows before acc),
              snd (read_student_rows before acc) @ [CannotParseRow row])
       \<and> fst (read_student_rows (before @ row # after) acc)
           = fst (read_student_rows (before @ after) acc)
       \<and> (\<exists>studs printed. read_student_list (before @ row # after) None False
                             = Inr (studs, printed)
             \<and> studs = fst (read_student_rows (before @ after) (Map.empty, []))
             \<and> CannotParseRow row \<in> set printed)"
proof -
  have short: "student_fields row = Inl IndexError"
    using assms by (rule student_fields_short)
  have step: "\<And>a. read_student_rows (before @ row # after) a =
           read_student_rows after
             (fst (read_student_rows before a),
              snd (read_student_rows before a) @ [CannotParseRow row])"
  proof -
    fix a
    obtain m lg where b: "read_student_rows before a = (m, lg)"
      by (cases "read_student_rows before a")
    show "read_student_rows (before @ row # after) a =
           read_student_rows after
             (fst (read_student_rows before a),
              snd (read_student_rows before a) @ [CannotParseRow row])"
      by (simp add: read_student_rows_append b short)
  qed
  have same: "\<And>a. fst (read_student_rows (before @ row # after) a)
           = fst (read_student_rows (before @ after) a)"
  proof -
    fix a
    obtain m lg where b: "read_student_rows before a = (m, lg)"
      by (cases "read_student_rows before a")
    have "fst (read_student_rows (before @ row # after) a)
            = fst (read_student_rows after (m, lg @ [CannotParseRow row]))"
      by (simp add: step b)
    also have "\<dots> = fst (read_student_rows after (m, lg))"
      by (rule read_student_rows_students)
    also have "\<dots> = fst (read_student_rows (before @ after) a)"
      by (simp add: read_student_rows_append b)
    finally show "fst (read_student_rows (before @ row # after) a)
           = fst (read_student_rows (before @ after) a)" .
  qed
  have printed: "CannotParseRow row \<in> set (snd (read_student_rows (before @ row # after) (Map.empty, [])))"
  proof -
    have "set (snd (read_student_rows before (Map.empty, [])) @ [CannotParseRow row])
            \<subseteq> set (snd (read_student_rows after
                   (fst (read_student_rows before (Map.empty, [])),
                    snd (read_student_rows before (Map.empty, [])) @ [CannotParseRow row])))"
      by (rule read_student_rows_keeps_output)
    then show ?thesis
      by (auto simp: step)
  qed
  show ?thesis
    using step [of acc] same [of acc] same [of "(Map.empty, [])"] printed
    by (simp add: read_student_list_plain)
qed

text \<open>
  A roster of three records, the second one too short.
\<close>

theorem short_roster_record_skipped_witness:
  "fst (read_student_rows
          [[''Science'', ''x'', ''x'', ''x'', ''x'', ''A@x.edu'', ''Visa''],
           [''Arts'', ''too'', ''short''],
           [''arts'', ''x'', ''x'', ''x'', ''x'', ''b@x.edu'', ''No'']] (Map.empty, []))
     = [''a@x.edu'' \<mapsto> (''Science'', True), ''b@x.edu'' \<mapsto> (''Arts'', False)]
   \<and> snd (read_student_rows
          [[''Science'', ''x'', ''x'', ''x'', ''x'', ''A@x.edu'', ''Visa''],
           [''Arts'', ''too'', ''short''],
           [''arts'', ''x'', ''x'', ''x'', ''x'', ''b@x.edu'', ''No'']] (Map.empty, []))
     = [CannotParseRow [''Arts'', ''too'', ''short'']]"
proof -
  have h: "int (length [''Arts'', ''too'', ''short''])
        \<le> max (EMAIL_HEADER StudentListFormat)
            (max (FACULTY_HEADER StudentListFormat) (INTERNATIONAL_HEADER StudentListFormat))"
    by (simp add: StudentListFormat_def)
  show ?thesis
    using short_roster_record_skipped [OF h,
        of "[[''Science'', ''x'', ''x'', ''x'', ''x'', ''A@x.edu'', ''Visa'']]"
           "[[''arts'', ''x'', ''x'', ''x'', ''x'', ''b@x.edu'', ''No'']]" "(Map.empty, [])"]
    by (simp add: student_fields_def py_index_def StudentListFormat_def py_str)
qed

section \<open>Properties of the compilation stage\<close>

lemma assign_columns_other:
  "name \<notin> set names \<Longrightarrow> assign_columns names c s ec name = ec name"
  by (induction names arbitrary: c ec) auto

lemma assign_columns_nth:
  "distinct names \<Longrightarrow> i < length names \<Longrightarrow>
   assign_columns names c s ec (names ! i) = Some (c + int i * s)"
proof (induction names arbitrary: c ec i)
  case Nil
  then show ?case by simp
next
  case (Cons n ns)
  show ?case
  proof (cases i)
    case 0
    with Cons.prems show ?thesis by (simp add: assign_columns_other)
  next
    case (Suc j)
    from Cons.prems Suc have dj: "distinct ns" "j < length ns" by simp_all
    have "assign_columns ns (c + s) s (ec(n \<mapsto> c)) (ns ! j) = Some (c + s + int j * s)"
      using dj by (rule Cons.IH)
    then have "assign_columns (n # ns) c s ec ((n # ns) ! Suc j) = Some (c + int (Suc j) * s)"
      by (simp only: assign_columns.simps nth_Cons_Suc) (simp add: algebra_simps)
    with Suc show ?thesis by simp
  qed
qed

text \<open>
  Claim C4, as amended. When the contest names are pairwise distinct and differ from
  the keys \<open>User\<close>, \<open>Faculty\<close> and \<open>International\<close>, the map holds \<open>user_column - 1\<close>,
  \<open>faculty_column - 1\<close> and \<open>international_offset - 1\<close> under these keys, the column
  \<open>(frc_offset - 1) + i * frc_votes\<close> for the \<open>i\<close>-th FRC election and the column
  \<open>(exec_offset - 1) + i\<close> for the \<open>i\<close>-th executive election.
\<close>

theorem columns_of_distinct_contests:
  assumes "distinct ([''User'', ''Faculty''] @ frc_elections config @ [''International'']
                     @ exec_elections config)"
  shows "build_election_columns config ''User'' = Some (user_column config - 1)
       \<and> build_election_columns config ''Faculty'' = Some (faculty_column config - 1)
       \<and> build_election_columns config ''International'' = Some (international_offset config - 1)
       \<and> (\<forall>i < length (frc_elections config).
             build_election_columns config (frc_elections config ! i)
               = Some ((frc_offset config - 1) + int i * frc_votes config))
       \<and> (\<forall>i < length (exec_elections config).
             build_election_columns config (exec_elections config ! i)
               = Some ((exec_offset config - 1) + int i))"
proof -
  let ?frc = "frc_elections config" and ?exec = "exec_elections config"
  from assms have d: "distinct ?frc" "distinct ?exec"
    "''User'' \<notin> set ?frc" "''User'' \<notin> set ?exec"
    "''Faculty'' \<notin> set ?frc" "''Faculty'' \<notin> set ?exec"
    "''International'' \<notin> set ?frc" "''International'' \<notin> set ?exec"
    "set ?frc \<inter> set ?exec = {}"
    by auto
  have frc: "\<And>i. i < length ?frc \<Longrightarrow>
      build_election_columns config (?frc ! i) = Some ((frc_offset config - 1) + int i * frc_votes config)"
  proof -
    fix i assume i: "i < length ?frc"
    then have m: "?frc ! i \<in> set ?frc" by simp
    with d have n: "?frc ! i \<notin> set ?exec" "?frc ! i \<noteq> ''International''" by auto
    show "build_election_columns config (?frc ! i) = Some ((frc_offset config - 1) + int i * frc_votes config)"
      using n i d(1) by (simp add: build_election_columns_def assign_columns_other assign_columns_nth)
  qed
  have exec: "\<And>i. i < length ?exec \<Longrightarrow>
      build_election_columns config (?exec ! i) = Some ((exec_offset config - 1) + int i)"
    using d(2) by (simp add: build_election_columns_def assign_columns_nth)
  show ?thesis
    using d frc exec by (simp add: build_election_columns_def assign_columns_other)
qed

text \<open>
  A configuration with two FRC and two executive elections.
\<close>

theorem columns_of_distinct_contests_witness:
  "build_election_columns
      \<lparr>faculty_column = 3, user_column = 2, frc_votes = 2, exec_votes = 1,
       international_offset = 13, frc_offset = 4,
       frc_elections = [''Social Sciences'', ''Humanities''],
       exec_offset = 15, exec_elections = [''VP Internal'', ''President'']\<rparr> ''Humanities'' = Some 5
   \<and> build_election_columns
      \<lparr>faculty_column = 3, user_column = 2, frc_votes = 2, exec_votes = 1,
       international_offset = 13, frc_offset = 4,
       frc_elections = [''Social Sciences'', ''Humanities''],
       exec_offset = 15, exec_elections = [''VP Internal'', ''President'']\<rparr> ''President'' = Some 15"
proof -
  let ?c = "\<lparr>faculty_column = 3, user_column = 2, frc_votes = 2, exec_votes = 1,
       international_offset = 13, frc_offset = 4,
       frc_elections = [''Social Sciences'', ''Humanities''],
       exec_offset = 15, exec_elections = [''VP Internal'', ''President'']\<rparr>"
  have h: "distinct ([''User'', ''Faculty''] @ frc_elections ?c @ [''International'']
                     @ exec_elections ?c)"
    by simp
  have "1 < length (frc_elections ?c)" "1 < length (exec_elections ?c)" by simp_all
  with columns_of_distinct_contests [OF h] show ?thesis
    by (auto simp del: distinct_append)
qed

text \<open>
  Claim C4 as stated fails for a configuration that names an FRC election twice: the
  second assignment replaces the first, and the election at position 0 is mapped to column
  5, not to \<open>(frc_offset - 1) + 0 * frc_votes = 3\<close>.
\<close>

theorem repeated_contest_column_counterexample:
  "build_election_columns
      \<lparr>faculty_column = 3, user_column = 2, frc_votes = 2, exec_votes = 1,
       international_offset = 13, frc_offset = 4,
       frc_elections = [''Arts'', ''Arts''],
       exec_offset = 15, exec_elections = [''President'']\<rparr>
      (frc_elections
         \<lparr>faculty_column = 3, user_column = 2, frc_votes = 2, exec_votes = 1,
          international_offset = 13, frc_offset = 4,
          frc_elections = [''Arts'', ''Arts''],
          exec_offset = 15, exec_elections = [''President'']\<rparr> ! 0)
     = Some 5
   \<and> (frc_offset
         \<lparr>faculty_column = 3, user_column = 2, frc_votes = 2, exec_votes = 1,
          international_offset = 13, frc_offset = 4,
          frc_elections = [''Arts'', ''Arts''],
          exec_offset = 15, exec_elections = [''President'']\<rparr> - 1)
       + int 0 * frc_votes
         \<lparr>faculty_column = 3, user_column = 2, frc_votes = 2, exec_votes = 1,
          international_offset = 13, frc_offset = 4,
          frc_elections = [''Arts'', ''Arts''],
          exec_offset = 15, exec_elections = [''President'']\<rparr> = 3"
  by (simp add: build_election_columns_def)

lemma populate_defaults_lookup:
  "populate_defaults items config k =
     (case config k of Some v \<Rightarrow> Some v | None \<Rightarrow> map_of items k)"
  by (induction items config rule: populate_defaults.induct) (auto split: option.splits)

lemma read_config_merge:
  "read_config True (Some (Document user)) = Inr merged \<Longrightarrow>
   merged k = (case user k of Some v \<Rightarrow> Some v | None \<Rightarrow> map_of DEFAULT_CONFIG k)"
  by (auto simp: read_config_def populate_defaults_lookup)

text \<open>
  Claim C5. \<open>read_config\<close> returns the defaults when it is given no file, but the main
  block does not call it then: without the \<open>--config\<close> option \<open>config\<close> is unbound at the
  call of \<open>compile_validated_results\<close>, which raises \<open>NameError\<close>, with or without the
  \<open>yaml\<close> package.
\<close>

theorem main_without_config_option:
  "read_config yaml_installed None = Inr (map_of DEFAULT_CONFIG)
   \<and> main_config yaml_installed None = Inl NameError"
  by (simp add: read_config_def main_config_def)

lemma then_trace_simps [simp]:
  "then_trace (evs, Some e) b = (evs, Some e)"
  "then_trace (evs, None) b = (evs @ fst b, snd b)"
  by (simp_all add: then_trace_def)




lemma no_empty_write_nil [simp]: "no_empty_write ([], r)"
  by (simp add: no_empty_write_def)





























lemma length_close_file [simp]: "length (close_file i hs) = length hs"
  by (simp add: close_file_def)

lemma length_fold_close [simp]: "length (fold close_file is hs) = length hs"
  by (induction "is" arbitrary: hs) simp_all

















lemma no_linebreak_append [simp]:
  "no_linebreak (a @ b) = (no_linebreak a \<and> no_linebreak b)"
  by (auto simp: no_linebreak_def)









end
